theory Spec2Isabelle
  imports Main "HOL-Library.Sublist"
begin

section \<open>Python strings\<close>

text \<open>
  A Python \<open>str\<close> is a sequence of Unicode code points, and \<open>len\<close> counts code points.
  The role glyphs are not ASCII, so a string is a list of code points (natural numbers);
  \<open>ascii\<close> turns a literal into one.
\<close>

type_synonym pystr = "nat list"

definition ascii :: "string \<Rightarrow> pystr" where
  "ascii s = map of_char s"

text \<open>
  The slice \<open>s[:x]\<close>. Python adds \<open>len(s)\<close> to a negative bound and then clamps the
  bound to the range \<open>0 .. len(s)\<close>; it never raises.
\<close>

definition py_slice_to :: "int \<Rightarrow> 'a list \<Rightarrow> 'a list" where
  "py_slice_to x s =
     (if x < 0 then take (nat (int (length s) + x)) s else take (nat x) s)"

text \<open>\<open>str\<close> of an \<open>int\<close>, which is what an f-string does with an integer field.\<close>

function digits :: "nat \<Rightarrow> pystr" where
  "digits n = (if n < 10 then [48 + n] else digits (n div 10) @ [48 + n mod 10])"
  by pat_completeness auto
termination
  by (relation "measure id") auto

declare digits.simps [simp del]

definition py_str :: "int \<Rightarrow> pystr" where
  "py_str i = (if i < 0 then 45 # digits (nat (- i)) else digits (nat i))"

section \<open>classes/nickname.py: the encoder\<close>

text \<open>
  \<open>utils/emojis.py\<close> is not part of the sources at hand; the three glyphs that
  \<open>ROLES\<close> reads from it are a parameter of the model.
\<close>

record emojis =
  u_tank :: pystr
  u_offense :: pystr
  u_support :: pystr

definition MAX_NICKNAME_LENGTH :: int where
  "MAX_NICKNAME_LENGTH = 32"

definition ROLES :: "emojis \<Rightarrow> (pystr \<times> pystr) list" where
  "ROLES em =
     [(ascii ''tank'', u_tank em),
      (ascii ''offense'', u_offense em),
      (ascii ''support'', u_support em)]"

text \<open>
  The field \<open>{ROLES.get(key)}\<close> of the f-string: \<open>dict.get\<close> gives \<open>None\<close> for a key that
  is not in \<open>ROLES\<close>, and the f-string prints it as the four characters \<open>None\<close>.
\<close>

definition ROLES_get_str :: "emojis \<Rightarrow> pystr \<Rightarrow> pystr" where
  "ROLES_get_str em key =
     (case map_of (ROLES em) key of None \<Rightarrow> ascii ''None'' | Some g \<Rightarrow> g)"

text \<open>
  The result of \<open>resolve_ratings()\<close> is a dict from role name to rating; a dict iterates
  in insertion order, so it is an association list. The loop of lines 42-43:
  \<^verbatim>\<open>
  for key, value in ratings.items():
      tmp += f"{ROLES.get(key)}{value}/"
  \<close>
\<close>

type_synonym ratings = "(pystr \<times> int) list"

fun tmp_loop :: "emojis \<Rightarrow> pystr \<Rightarrow> ratings \<Rightarrow> pystr" where
  "tmp_loop em tmp [] = tmp"
| "tmp_loop em tmp ((key, val) # rest) =
     tmp_loop em (tmp @ ROLES_get_str em key @ py_str val @ ascii ''/'') rest"

text \<open>Line 46, \<^verbatim>\<open>tmp = "[" + tmp[:-1] + "]"\<close>: what the specification calls the suffix.\<close>

definition sr_suffix :: "emojis \<Rightarrow> ratings \<Rightarrow> pystr" where
  "sr_suffix em ratings =
     ascii ''['' @ py_slice_to (- 1) (tmp_loop em [] ratings) @ ascii '']''"

text \<open>
  \<open>Nickname._generate\<close>, with the member's name and the profile's ratings as arguments.
  \<open>not ratings\<close> holds for the empty dict (and for \<open>None\<close>, which takes the same branch).
\<close>

definition generate :: "emojis \<Rightarrow> pystr \<Rightarrow> ratings \<Rightarrow> pystr" where
  "generate em name ratings =
     (if ratings = [] then py_slice_to 21 name @ ascii '' [Unranked]''
      else
        let tmp = sr_suffix em ratings;
            x = MAX_NICKNAME_LENGTH - int (length tmp) - 1;
            name' = py_slice_to x name
        in name' @ ascii '' '' @ tmp)"

text \<open>A glyph table for the closed statements below (shield, crossed swords, cross).\<close>

definition emojis_example :: emojis where
  "emojis_example = \<lparr>u_tank = [0x1F6E1], u_offense = [0x2694], u_support = [0x271A]\<rparr>"

section \<open>The encoder as the specification words it\<close>

text \<open>
  \<open>truncate(s, n)\<close> keeps the first \<open>n\<close> characters and none when \<open>n\<close> is zero or negative.
\<close>

definition truncate_spec :: "pystr \<Rightarrow> int \<Rightarrow> pystr" where
  "truncate_spec s n = take (nat n) s"

definition encode_unranked_spec :: "pystr \<Rightarrow> int \<Rightarrow> pystr" where
  "encode_unranked_spec baseName maxLength =
     truncate_spec baseName (maxLength - int (length (ascii '' [Unranked]'')))
       @ ascii '' [Unranked]''"

text \<open>
  The three roles, their keys in \<open>ROLES\<close> and their glyphs. A rating map whose keys
  are roles is the dict \<open>dict_of rs\<close>, in the order of \<open>rs\<close>.
\<close>

datatype role = Tank | Offense | Support

fun role_key :: "role \<Rightarrow> pystr" where
  "role_key Tank = ascii ''tank''"
| "role_key Offense = ascii ''offense''"
| "role_key Support = ascii ''support''"

fun role_glyph :: "emojis \<Rightarrow> role \<Rightarrow> pystr" where
  "role_glyph em Tank = u_tank em"
| "role_glyph em Offense = u_offense em"
| "role_glyph em Support = u_support em"

definition canonical_roles :: "role list" where
  "canonical_roles = [Tank, Offense, Support]"

definition dict_of :: "(role \<times> int) list \<Rightarrow> ratings" where
  "dict_of rs = map (\<lambda>(r, v). (role_key r, v)) rs"

text \<open>\<open>sep.join(parts)\<close>: the parts with the separator between them.\<close>

fun py_join :: "'a list \<Rightarrow> 'a list list \<Rightarrow> 'a list" where
  "py_join sep [] = []"
| "py_join sep [x] = x"
| "py_join sep (x # y # ys) = x @ sep @ py_join sep (y # ys)"

text \<open>
  The suffix of the specification: the roles present, taken in the canonical order
  whatever the order of the map.
\<close>

definition suffix_spec :: "emojis \<Rightarrow> (role \<rightharpoonup> int) \<Rightarrow> pystr" where
  "suffix_spec em m =
     ascii ''['' @
     py_join (ascii ''/'')
       (concat (map (\<lambda>r. case m r of None \<Rightarrow> [] | Some v \<Rightarrow> [role_glyph em r @ py_str v])
          canonical_roles)) @
     ascii '']''"

section \<open>The stores, the platform and the interaction\<close>

text \<open>
  The tables the queries of the sources read and write. The schema file is not among the
  sources; the columns are those the queries name.
\<close>

record nickname_row =
  row_id :: int
  row_server_id :: int
  row_profile_id :: "int option"

record profile_row =
  prow_id :: int
  prow_member_id :: int
  prow_platform :: pystr
  prow_username :: pystr

record rating_row =
  rating_profile_id :: int
  rating_tank :: "int option"
  rating_damage :: "int option"
  rating_support :: "int option"
  rating_date :: nat

record database =
  nickname_tbl :: "nickname_row list"
  profile_tbl :: "profile_row list"
  rating_tbl :: "rating_row list"
  member_tbl :: "int list"

datatype py_error =
  TypeError | AttributeError | ValueError | HTTPException | OtherException
  | UniqueViolationError | NoChoice | ComputeError

text \<open>
  A \<open>Profile\<close> object. \<open>classes/profile.py\<close> is not among the sources: \<open>is_private\<close>
  and \<open>resolve_ratings\<close> hold what the methods of these names return once
  \<open>compute_data()\<close> has run.
\<close>

record Profile =
  profile_id :: int
  platform :: pystr
  username :: pystr
  is_private :: bool
  resolve_ratings :: ratings

datatype channel = Response | Followup

datatype message =
  Text pystr
  | ExcText py_error
  | PrivateEmbed
  | SelectView pystr "Profile list"

text \<open>
  What a command run can change: the tables, the display name of the invoking member in
  the guild (\<open>None\<close> when it has none), whether the interaction has been responded to,
  and the messages sent through it. Queries and sends are taken to go through: of the
  awaited calls, \<open>member.edit\<close>, \<open>compute_data\<close> and the \<open>INSERT\<close> are the ones
  that fail in the model.
\<close>

record world =
  db :: database
  member_nick :: "pystr option"
  response_done :: bool
  sent :: "(channel \<times> message) list"

record interaction =
  user_id :: int
  user_name :: pystr
  guild_id :: "int option"

text \<open>
  The answers of the collaborators during one command run: the confirmation prompt of
  the bot, the platform's answer to \<open>member.edit\<close>, the role comparison
  \<open>isinstance(author, discord.Member) and me.top_role < author.top_role\<close>, the limit of
  \<open>get_profiles_limit\<close>, the values the select menu holds when \<open>view.wait()\<close> returns
  (none after a timeout), Python's \<open>int\<close> on a string (\<open>None\<close> for \<open>ValueError\<close>), and
  \<open>compute_data\<close>, which loads the profile's data or raises.
\<close>

datatype edit_outcome = EditOk | EditRaisesHTTP | EditRaisesOther

record env =
  prompt_answer :: bool
  edit_result :: edit_outcome
  top_role_lower :: bool
  profiles_limit :: nat
  view_values :: "pystr list"
  py_int :: "pystr \<Rightarrow> int option"
  compute_data :: "Profile \<Rightarrow> py_error + Profile"

definition followup_send :: "message \<Rightarrow> world \<Rightarrow> world" where
  "followup_send m w = w\<lparr>sent := sent w @ [(Followup, m)]\<rparr>"

definition response_send_message :: "message \<Rightarrow> world \<Rightarrow> world" where
  "response_send_message m w = w\<lparr>sent := sent w @ [(Response, m)], response_done := True\<rparr>"

definition response_defer :: "world \<Rightarrow> world" where
  "response_defer w = w\<lparr>response_done := True\<rparr>"

text \<open>
  \<open>member.edit(nick=nick)\<close>: the platform applies the name, or the call raises
  \<open>discord.HTTPException\<close> (which covers \<open>Forbidden\<close>), or it raises something else
  (a connection error, for one).
\<close>

definition member_edit :: "edit_outcome \<Rightarrow> pystr option \<Rightarrow> world \<Rightarrow> py_error option \<times> world" where
  "member_edit oc nick w =
     (case oc of
        EditOk \<Rightarrow> (None, w\<lparr>member_nick := nick\<rparr>)
      | EditRaisesHTTP \<Rightarrow> (Some HTTPException, w)
      | EditRaisesOther \<Rightarrow> (Some OtherException, w))"

text \<open>The queries on \<open>nickname\<close>: \<open>SELECT EXISTS\<close>, \<open>INSERT\<close> and \<open>DELETE\<close> by account.\<close>

definition nickname_exists :: "int \<Rightarrow> database \<Rightarrow> bool" where
  "nickname_exists i d = (\<exists>r \<in> set (nickname_tbl d). row_id r = i)"

text \<open>
  Modelled from the spec: the primary key on the account column of \<open>nickname\<close>, which
  makes an \<open>INSERT\<close> for an account that has a row fail. The schema is not among the
  sources.
\<close>

definition nickname_insert :: "int \<Rightarrow> int \<Rightarrow> int option \<Rightarrow> database \<Rightarrow> py_error + database" where
  "nickname_insert i g p d =
     (if nickname_exists i d then Inl UniqueViolationError
      else Inr (d\<lparr>nickname_tbl :=
             nickname_tbl d @ [\<lparr>row_id = i, row_server_id = g, row_profile_id = p\<rparr>]\<rparr>))"

definition nickname_delete :: "int \<Rightarrow> database \<Rightarrow> database" where
  "nickname_delete i d = d\<lparr>nickname_tbl := filter (\<lambda>r. row_id r \<noteq> i) (nickname_tbl d)\<rparr>"

section \<open>classes/nickname.py: the class Nickname\<close>

record Nickname =
  member_id :: int
  member_name :: pystr
  guild :: "int option"
  profile :: "Profile option"

text \<open>
  \<open>__init__(self, interaction, *, profile=None)\<close>. The only keyword it takes is
  \<open>profile\<close>; \<open>passes_bot\<close> says that the call also passes \<open>bot=...\<close>, as both calls in
  \<open>cogs/profile.py\<close> do, and Python then raises \<open>TypeError\<close>.
\<close>

definition Nickname_init :: "interaction \<Rightarrow> bool \<Rightarrow> Profile option \<Rightarrow> py_error + Nickname" where
  "Nickname_init i passes_bot p =
     (if passes_bot then Inl TypeError
      else Inr \<lparr>member_id = user_id i, member_name = user_name i,
                guild = guild_id i, profile = p\<rparr>)"

definition exists :: "Nickname \<Rightarrow> world \<Rightarrow> bool" where
  "exists self w = nickname_exists (member_id self) (db w)"

text \<open>\<open>_generate\<close> on the object: \<open>self.profile.resolve_ratings()\<close> needs a profile.\<close>

definition generate_self :: "emojis \<Rightarrow> Nickname \<Rightarrow> py_error + pystr" where
  "generate_self em self =
     (case profile self of
        None \<Rightarrow> Inl AttributeError
      | Some p \<Rightarrow> Inr (generate em (member_name self) (resolve_ratings p)))"

text \<open>\<open>update\<close>: the \<open>except Exception: pass\<close> drops whatever \<open>member.edit\<close> raises.\<close>

definition update :: "emojis \<Rightarrow> Nickname \<Rightarrow> edit_outcome \<Rightarrow> world \<Rightarrow> (py_error + unit) \<times> world" where
  "update em self oc w =
     (if \<not> exists self w then (Inr (), w)
      else
        case generate_self em self of
          Inl e \<Rightarrow> (Inl e, w)
        | Inr nick \<Rightarrow> (Inr (), snd (member_edit oc (Some nick) w)))"

text \<open>
  \<open>set_or_remove\<close>. The \<open>try\<close> catches \<open>discord.HTTPException\<close> only: any other
  exception of \<open>member.edit\<close> leaves the method before the query runs.
\<close>

definition set_or_remove_store :: "Nickname \<Rightarrow> int option \<Rightarrow> bool \<Rightarrow> world \<Rightarrow> (py_error + unit) \<times> world" where
  "set_or_remove_store self pid remove w =
     (if \<not> remove then
        (case guild self of
           None \<Rightarrow> (Inl AttributeError, w)
         | Some g \<Rightarrow>
             (case nickname_insert (member_id self) g pid (db w) of
                Inl e \<Rightarrow> (Inl e, w)
              | Inr d \<Rightarrow>
                  (Inr (), followup_send (Text (ascii ''Nickname successfully set.''))
                             (w\<lparr>db := d\<rparr>))))
      else
        (Inr (), followup_send (Text (ascii ''Nickname successfully removed.''))
                   (w\<lparr>db := nickname_delete (member_id self) (db w)\<rparr>)))"

definition set_or_remove :: "emojis \<Rightarrow> Nickname \<Rightarrow> int option \<Rightarrow> bool \<Rightarrow> edit_outcome \<Rightarrow> world \<Rightarrow> (py_error + unit) \<times> world" where
  "set_or_remove em self pid remove oc w =
     (case (if \<not> remove then map_sum id Some (generate_self em self) else Inr None) of
        Inl e \<Rightarrow> (Inl e, w)
      | Inr nick \<Rightarrow>
          (case member_edit oc nick w of
             (None, w1) \<Rightarrow> set_or_remove_store self pid remove w1
           | (Some HTTPException, w1) \<Rightarrow>
               set_or_remove_store self pid remove
                 (followup_send
                    (Text (ascii ''Something bad happened while updating your nickname.'')) w1)
           | (Some e, w1) \<Rightarrow> (Inl e, w1)))"

section \<open>cogs/profile.py\<close>

text \<open>
  \<open>get_profiles\<close>: the rows of \<open>profile\<close> joined with \<open>member\<close> for the account, at most
  \<open>limit\<close> of them, each wrapped in a \<open>Profile\<close> whose data is not loaded yet.
  \<open>member_tbl\<close> holds the ids of the table \<open>member\<close>, each once.
\<close>

definition Profile_of_record :: "profile_row \<Rightarrow> Profile" where
  "Profile_of_record r =
     \<lparr>profile_id = prow_id r, platform = prow_platform r, username = prow_username r,
      is_private = False, resolve_ratings = []\<rparr>"

definition get_profiles :: "env \<Rightarrow> int \<Rightarrow> world \<Rightarrow> Profile list" where
  "get_profiles ev mid w =
     map Profile_of_record
       (take (profiles_limit ev)
          (filter (\<lambda>r. prow_member_id r = mid \<and> mid \<in> set (member_tbl (db w)))
             (profile_tbl (db w))))"

text \<open>
  The loop of lines 75-77, entered when a choice was made: \<open>int(choice)\<close> is evaluated
  at each profile, so it raises at the first one if it raises at all.
\<close>

definition find_profile :: "env \<Rightarrow> pystr \<Rightarrow> Profile list \<Rightarrow> py_error + Profile" where
  "find_profile ev choice profiles =
     (if profiles = [] then Inl NoChoice
      else
        case py_int ev choice of
          None \<Rightarrow> Inl ValueError
        | Some n \<Rightarrow>
            (case find (\<lambda>p. profile_id p = n) profiles of
               Some p \<Rightarrow> Inr p
             | None \<Rightarrow> Inl NoChoice))"

definition select_profile :: "env \<Rightarrow> pystr \<Rightarrow> int \<Rightarrow> world \<Rightarrow> (py_error + Profile) \<times> world" where
  "select_profile ev msg mid w =
     (let profiles = get_profiles ev mid w in
      if length profiles = 1 then (Inr (profiles ! 0), w)
      else
        let w1 = (if response_done w then followup_send (SelectView msg profiles) w
                  else response_send_message (SelectView msg profiles) w)
        in case view_values ev of
             [] \<Rightarrow> (Inl NoChoice, w1)
           | choice # _ \<Rightarrow> (find_profile ev choice profiles, w1))"

text \<open>
  The command \<open>nickname\<close>, from the construction of the \<open>Nickname\<close> on: what runs with
  the object \<open>nick\<close>. An exception of \<open>set_or_remove\<close> is caught and its text sent.
\<close>

definition report :: "(py_error + unit) \<times> world \<Rightarrow> (py_error + unit) \<times> world" where
  "report r =
     (case r of
        (Inl e, w) \<Rightarrow> (Inr (), followup_send (ExcText e) w)
      | (Inr u, w) \<Rightarrow> (Inr u, w))"

definition role_warning :: pystr where
  "role_warning =
     ascii ''This server's owner needs to move the `OverBot` role higher, so I will '' @
     ascii ''be able to update your nickname. If you are this server's owner, there's '' @
     ascii ''no way for me to change your nickname, sorry!''"

definition nickname_body :: "emojis \<Rightarrow> env \<Rightarrow> Nickname \<Rightarrow> world \<Rightarrow> (py_error + unit) \<times> world" where
  "nickname_body em ev nick w =
     (if exists nick w then
        (if prompt_answer ev
         then report (set_or_remove em nick None True (edit_result ev) w)
         else (Inr (), w))
      else if \<not> prompt_answer ev then (Inr (), w)
      else if top_role_lower ev then (Inr (), followup_send (Text role_warning) w)
      else
        case select_profile ev (ascii ''Select a profile to use for the nickname SRs.'')
               (member_id nick) w of
          (Inl e, w1) \<Rightarrow> (Inl e, w1)
        | (Inr p, w1) \<Rightarrow>
            (case compute_data ev p of
               Inl e \<Rightarrow> (Inl e, w1)
             | Inr p' \<Rightarrow>
                 if is_private p' then (Inr (), followup_send PrivateEmbed w1)
                 else report (set_or_remove em (nick\<lparr>profile := Some p'\<rparr>)
                                (Some (profile_id p')) False (edit_result ev) w1)))"

text \<open>
  The command as it stands: it defers the response and builds the object with
  \<open>Nickname(interaction, bot=self.bot)\<close>.
\<close>

definition nickname_command :: "emojis \<Rightarrow> env \<Rightarrow> interaction \<Rightarrow> world \<Rightarrow> (py_error + unit) \<times> world" where
  "nickname_command em ev i w =
     (case Nickname_init i True None of
        Inl e \<Rightarrow> (Inl e, response_defer w)
      | Inr nick \<Rightarrow> nickname_body em ev nick (response_defer w))"

text \<open>
  Lines 165-168 of the command \<open>ratings\<close>: the refresh of the nickname when the profile
  shown is the bound one and the member looks at their own ratings.
\<close>

definition ratings_refresh :: "emojis \<Rightarrow> env \<Rightarrow> interaction \<Rightarrow> Profile \<Rightarrow> int \<Rightarrow> world \<Rightarrow> (py_error + unit) \<times> world" where
  "ratings_refresh em ev i p mid w =
     (let flag = find (\<lambda>r. row_profile_id r = Some (profile_id p)) (nickname_tbl (db w)) in
      if flag \<noteq> None \<and> mid = user_id i then
        (case Nickname_init i True (Some p) of
           Inl e \<Rightarrow> (Inl e, w)
         | Inr nick \<Rightarrow> update em nick (edit_result ev) w)
      else (Inr (), w))"

section \<open>A concrete member, two worlds and one run\<close>

text \<open>
  The inputs of the closed statements: a member with two linked profiles, the world in
  which the member has no nickname row and the one in which it has one, and a command
  run in which the prompt is confirmed, the platform refuses the edit and the select
  menu times out.
\<close>

definition profile_example :: Profile where
  "profile_example =
     \<lparr>profile_id = 7, platform = ascii ''pc'', username = ascii ''Alice#1234'',
      is_private = False, resolve_ratings = dict_of [(Tank, 1000)]\<rparr>"

definition nick_example :: Nickname where
  "nick_example =
     \<lparr>member_id = 1, member_name = ascii ''Alice'', guild = Some 10,
      profile = Some profile_example\<rparr>"

definition world_unbound :: world where
  "world_unbound =
     \<lparr>db = \<lparr>nickname_tbl = [],
            profile_tbl = [\<lparr>prow_id = 7, prow_member_id = 1, prow_platform = ascii ''pc'',
                             prow_username = ascii ''Alice#1234''\<rparr>,
                           \<lparr>prow_id = 8, prow_member_id = 1, prow_platform = ascii ''xbox'',
                             prow_username = ascii ''Alice''\<rparr>],
            rating_tbl = [], member_tbl = [1]\<rparr>,
      member_nick = None, response_done = True, sent = []\<rparr>"

definition world_bound :: world where
  "world_bound =
     world_unbound\<lparr>db := (db world_unbound)\<lparr>nickname_tbl :=
       [\<lparr>row_id = 1, row_server_id = 10, row_profile_id = Some 7\<rparr>]\<rparr>\<rparr>"

definition env_example :: env where
  "env_example =
     \<lparr>prompt_answer = True, edit_result = EditRaisesHTTP, top_role_lower = False,
      profiles_limit = 5, view_values = [], py_int = (\<lambda>s. None), compute_data = Inr\<rparr>"

text \<open>One pass of the loop of \<open>_generate\<close> without its slash.\<close>

definition entry :: "emojis \<Rightarrow> pystr \<times> int \<Rightarrow> pystr" where
  "entry em kv = ROLES_get_str em (fst kv) @ py_str (snd kv)"

section \<open>Properties of the encoder\<close>

lemma length_py_slice_to_le: "0 \<le> x \<Longrightarrow> int (length (py_slice_to x s)) \<le> x"
  by (simp add: py_slice_to_def)

lemma length_unranked_literal: "length (ascii '' [Unranked]'') = 11"
  by (simp add: ascii_def)

lemma tmp_loop_concat:
  "tmp_loop em tmp kvs = tmp @ concat (map (\<lambda>kv. entry em kv @ ascii ''/'') kvs)"
  by (induction kvs arbitrary: tmp) (auto simp: entry_def)

lemma py_slice_to_minus1: "py_slice_to (- 1) s = butlast s"
  by (simp add: py_slice_to_def butlast_conv_take nat_diff_distrib')

text \<open>Dropping the last separator of the accumulated string leaves the joined entries.\<close>

lemma butlast_concat_join:
  "xs \<noteq> [] \<Longrightarrow> butlast (concat (map (\<lambda>x. f x @ [c]) xs)) = py_join [c] (map f xs)"
proof (induction xs)
  case Nil
  then show ?case by simp
next
  case (Cons x xs)
  show ?case
  proof (cases xs)
    case Nil
    then show ?thesis by simp
  next
    case (Cons y ys)
    then have "concat (map (\<lambda>x. f x @ [c]) xs) \<noteq> []" by simp
    then show ?thesis using Cons.IH Cons by (simp add: butlast_append)
  qed
qed

lemma ROLES_get_str_role: "ROLES_get_str em (role_key r) = role_glyph em r"
  by (cases r) (simp_all add: ROLES_get_str_def ROLES_def ascii_def)

lemma sr_suffix_join:
  assumes ne: "kvs \<noteq> []"
  shows "sr_suffix em kvs =
    ascii ''['' @ py_join (ascii ''/'') (map (entry em) kvs) @ ascii '']''"
proof -
  have s: "ascii ''/'' = [47]" by (simp add: ascii_def)
  show ?thesis
    unfolding sr_suffix_def tmp_loop_concat py_slice_to_minus1 s
    using butlast_concat_join [OF ne, of "entry em" 47] by simp
qed

lemma generate_ranked:
  "kvs \<noteq> [] \<Longrightarrow>
   generate em name kvs =
     py_slice_to (MAX_NICKNAME_LENGTH - int (length (sr_suffix em kvs)) - 1) name
       @ ascii '' '' @ sr_suffix em kvs"
  by (simp add: generate_def Let_def)

lemma sr_suffix_roles:
  assumes ne: "rs \<noteq> []"
  shows "sr_suffix em (dict_of rs) =
     ascii ''['' @ py_join (ascii ''/'') (map (\<lambda>(r, v). role_glyph em r @ py_str v) rs)
       @ ascii '']''"
proof -
  from ne have "dict_of rs \<noteq> []" by (simp add: dict_of_def)
  moreover have "map (entry em) (dict_of rs) = map (\<lambda>(r, v). role_glyph em r @ py_str v) rs"
    by (auto simp: dict_of_def entry_def ROLES_get_str_role)
  ultimately show ?thesis by (simp add: sr_suffix_join)
qed

text \<open>
  A map whose keys come in the canonical order lists, entry by entry, what a walk over
  the three roles finds in it.
\<close>

lemma canonical_order_spec:
  "rs \<noteq> [] \<Longrightarrow> map fst rs \<in> set (subseqs canonical_roles) \<Longrightarrow>
   py_join (ascii ''/'') (map (\<lambda>(r, v). role_glyph em r @ py_str v) rs) =
   py_join (ascii ''/'')
     (concat (map (\<lambda>r. case map_of rs r of None \<Rightarrow> [] | Some v \<Rightarrow> [role_glyph em r @ py_str v])
        canonical_roles))"
  by (auto simp: canonical_roles_def map_eq_Cons_conv)

lemmas encoder_eval =
  sr_suffix_def dict_of_def ROLES_get_str_def ROLES_def emojis_example_def
  py_slice_to_def py_str_def digits.simps ascii_def MAX_NICKNAME_LENGTH_def

lemma suffix_two_roles:
  "sr_suffix emojis_example (dict_of [(Tank, 1000), (Support, 2500)]) =
     ascii ''['' @ [0x1F6E1] @ ascii ''1000/'' @ [0x271A] @ ascii ''2500]''"
  by (simp add: encoder_eval)

lemma suffix_big:
  "sr_suffix emojis_example [(ascii ''tank'', 10000000000000000000000000000)] =
     ascii ''['' @ [0x1F6E1] @ ascii ''10000000000000000000000000000]''"
  by (simp add: encoder_eval)

subsection \<open>The length of the result\<close>

text \<open>
  C1, as the code has it. The maximal length is the module constant 32, not an argument.
  For every base name the result has at most 32 characters when the rating map is empty,
  and when it is not empty and its suffix has at most 31 characters. The encoder
  returns a string for every name and every map: nothing in it raises once the object
  has a profile.
\<close>

theorem generate_length_bound:
  "ratings = [] \<or> int (length (sr_suffix em ratings)) + 1 \<le> MAX_NICKNAME_LENGTH \<Longrightarrow>
   int (length (generate em name ratings)) \<le> MAX_NICKNAME_LENGTH \<and>
   generate_self em \<lparr>member_id = i, member_name = name, guild = g,
                      profile = Some (p\<lparr>resolve_ratings := ratings\<rparr>)\<rparr>
     = Inr (generate em name ratings)"
proof (cases "ratings = []")
  case True
  then show ?thesis
    by (simp add: generate_def py_slice_to_def MAX_NICKNAME_LENGTH_def length_unranked_literal
        generate_self_def)
next
  case False
  assume "ratings = [] \<or> int (length (sr_suffix em ratings)) + 1 \<le> MAX_NICKNAME_LENGTH"
  with False have room: "0 \<le> MAX_NICKNAME_LENGTH - int (length (sr_suffix em ratings)) - 1"
    by simp
  have "length (ascii '' '') = 1" by (simp add: ascii_def)
  with length_py_slice_to_le [OF room, of name] show ?thesis
    by (simp add: generate_ranked [OF False] generate_self_def)
qed

text \<open>
  A 50-character name with a tank and a support rating: the suffix has 13 characters and
  the result 32.
\<close>

theorem generate_length_bound_witness:
  "int (length (sr_suffix emojis_example (dict_of [(Tank, 1000), (Support, 2500)]))) + 1
     \<le> MAX_NICKNAME_LENGTH \<and>
   int (length (generate emojis_example (replicate 50 65)
                  (dict_of [(Tank, 1000), (Support, 2500)])))
     \<le> MAX_NICKNAME_LENGTH"
proof -
  have h: "int (length (sr_suffix emojis_example (dict_of [(Tank, 1000), (Support, 2500)]))) + 1
     \<le> MAX_NICKNAME_LENGTH"
    unfolding suffix_two_roles by (simp add: ascii_def MAX_NICKNAME_LENGTH_def)
  show ?thesis
    using h generate_length_bound [OF disjI2 [OF h], of "replicate 50 65"] by simp
qed

text \<open>
  C1 as stated fails. A rating of 29 digits gives a suffix of 32 characters, and the
  result for the name \<open>Bob\<close> is longer than 32. And the result does not follow a smaller
  bound: \<open>Alice\<close> without ratings gives the 16 characters of \<open>Alice [Unranked]\<close>, more
  than the 11 that the claim allows as \<open>maxLength\<close>.
\<close>

theorem generate_length_counterexample:
  "\<not> int (length (generate emojis_example (ascii ''Bob'')
                   [(ascii ''tank'', 10000000000000000000000000000)])) \<le> MAX_NICKNAME_LENGTH \<and>
   \<not> length (generate emojis_example (ascii ''Alice'') []) \<le> length (ascii ''[Unranked]'') + 1"
proof -
  have "\<not> int (length (generate emojis_example (ascii ''Bob'')
                   [(ascii ''tank'', 10000000000000000000000000000)])) \<le> MAX_NICKNAME_LENGTH"
    unfolding generate_def suffix_big
    by (simp add: py_slice_to_def MAX_NICKNAME_LENGTH_def ascii_def)
  moreover have "\<not> length (generate emojis_example (ascii ''Alice'') [])
      \<le> length (ascii ''[Unranked]'') + 1"
    by (simp add: generate_def py_slice_to_def ascii_def)
  ultimately show ?thesis by simp
qed

subsection \<open>The truncation of the base name\<close>

text \<open>
  C2, as the code has it. For every non-empty rating map whose suffix has at most 31
  characters, the result starts with the first \<open>32 - len(suffix) - 1\<close> characters of the
  base name: the base-name portion has that many characters when the name is at least
  that long, the whole name when it is shorter (nothing is padded), and none when the
  room is zero.
\<close>

theorem generate_base_name_portion:
  "ratings \<noteq> [] \<Longrightarrow> int (length (sr_suffix em ratings)) + 1 \<le> MAX_NICKNAME_LENGTH \<Longrightarrow>
   generate em name ratings =
     truncate_spec name (MAX_NICKNAME_LENGTH - int (length (sr_suffix em ratings)) - 1)
       @ ascii '' '' @ sr_suffix em ratings \<and>
   int (length (truncate_spec name
                  (MAX_NICKNAME_LENGTH - int (length (sr_suffix em ratings)) - 1))) =
     min (int (length name)) (MAX_NICKNAME_LENGTH - int (length (sr_suffix em ratings)) - 1) \<and>
   (MAX_NICKNAME_LENGTH - int (length (sr_suffix em ratings)) - 1 = 0 \<longrightarrow>
      generate em name ratings = ascii '' '' @ sr_suffix em ratings)"
proof -
  assume ne: "ratings \<noteq> []"
    and room: "int (length (sr_suffix em ratings)) + 1 \<le> MAX_NICKNAME_LENGTH"
  have g: "generate em name ratings =
     truncate_spec name (MAX_NICKNAME_LENGTH - int (length (sr_suffix em ratings)) - 1)
       @ ascii '' '' @ sr_suffix em ratings"
    using room by (simp add: generate_ranked [OF ne] py_slice_to_def truncate_spec_def)
  have l: "int (length (truncate_spec name
                  (MAX_NICKNAME_LENGTH - int (length (sr_suffix em ratings)) - 1))) =
     min (int (length name)) (MAX_NICKNAME_LENGTH - int (length (sr_suffix em ratings)) - 1)"
    using room by (simp add: truncate_spec_def)
  from g l show ?thesis by (auto simp: truncate_spec_def)
qed

lemma suffix_tank_one:
  "sr_suffix emojis_example (dict_of [(Tank, 1)]) = ascii ''['' @ [0x1F6E1] @ ascii ''1]''"
  by (simp add: encoder_eval)

lemma suffix_tank_1000:
  "sr_suffix emojis_example (dict_of [(Tank, 1000)]) = ascii ''['' @ [0x1F6E1] @ ascii ''1000]''"
  by (simp add: encoder_eval)

text \<open>
  Fifty times the letter \<open>A\<close> and the rating 1 for tank: the suffix has 4 characters and
  27 letters are kept.
\<close>

theorem generate_base_name_portion_witness:
  "dict_of [(Tank, 1)] \<noteq> [] \<and>
   int (length (sr_suffix emojis_example (dict_of [(Tank, 1)]))) + 1 \<le> MAX_NICKNAME_LENGTH \<and>
   generate emojis_example (replicate 50 65) (dict_of [(Tank, 1)]) =
     replicate 27 65 @ ascii '' '' @ sr_suffix emojis_example (dict_of [(Tank, 1)])"
proof -
  have ne: "dict_of [(Tank, 1)] \<noteq> []" by (simp add: dict_of_def)
  have h: "int (length (sr_suffix emojis_example (dict_of [(Tank, 1)]))) + 1
      \<le> MAX_NICKNAME_LENGTH"
    unfolding suffix_tank_one by (simp add: ascii_def MAX_NICKNAME_LENGTH_def)
  have r: "MAX_NICKNAME_LENGTH - int (length (sr_suffix emojis_example (dict_of [(Tank, 1)]))) - 1
      = 27"
    unfolding suffix_tank_one by (simp add: ascii_def MAX_NICKNAME_LENGTH_def)
  show ?thesis
    using ne h generate_base_name_portion [OF ne h, of "replicate 50 65"]
    unfolding r by (simp add: truncate_spec_def)
qed

text \<open>
  C2 as stated fails in two ways. A name shorter than the room is kept whole: for \<open>Al\<close>
  and the tank rating 1000 the room is 24 and the base-name portion has 2 characters.
  And a negative room does not empty the name: with a tank rating of 29 digits the room
  is \<open>32 - 32 - 1 = -1\<close>, and the slice \<open>name[:-1]\<close> keeps \<open>Alic\<close> of \<open>Alice\<close>, where a
  truncation to zero characters keeps nothing.
\<close>

theorem generate_base_name_counterexample:
  "generate emojis_example (ascii ''Al'') (dict_of [(Tank, 1000)]) =
     ascii ''Al'' @ ascii '' '' @ sr_suffix emojis_example (dict_of [(Tank, 1000)]) \<and>
   int (length (ascii ''Al'')) \<noteq>
     max 0 (MAX_NICKNAME_LENGTH
              - int (length (sr_suffix emojis_example (dict_of [(Tank, 1000)]))) - 1) \<and>
   MAX_NICKNAME_LENGTH
     - int (length (sr_suffix emojis_example [(ascii ''tank'', 10000000000000000000000000000)])) - 1
     = - 1 \<and>
   generate emojis_example (ascii ''Alice'') [(ascii ''tank'', 10000000000000000000000000000)] =
     ascii ''Alic'' @ ascii '' '' @
       sr_suffix emojis_example [(ascii ''tank'', 10000000000000000000000000000)] \<and>
   truncate_spec (ascii ''Alice'') (- 1) = []"
proof -
  have d: "dict_of [(Tank, 1000)] \<noteq> []" by (simp add: dict_of_def)
  have a: "generate emojis_example (ascii ''Al'') (dict_of [(Tank, 1000)]) =
     ascii ''Al'' @ ascii '' '' @ sr_suffix emojis_example (dict_of [(Tank, 1000)])"
    unfolding generate_ranked [OF d] suffix_tank_1000
    by (simp add: py_slice_to_def MAX_NICKNAME_LENGTH_def ascii_def)
  have b: "int (length (ascii ''Al'')) \<noteq>
     max 0 (MAX_NICKNAME_LENGTH
              - int (length (sr_suffix emojis_example (dict_of [(Tank, 1000)]))) - 1)"
    unfolding suffix_tank_1000 by (simp add: MAX_NICKNAME_LENGTH_def ascii_def)
  have c: "generate emojis_example (ascii ''Alice'')
          [(ascii ''tank'', 10000000000000000000000000000)] =
     ascii ''Alic'' @ ascii '' '' @
       sr_suffix emojis_example [(ascii ''tank'', 10000000000000000000000000000)]"
    unfolding generate_def suffix_big
    by (simp add: py_slice_to_def MAX_NICKNAME_LENGTH_def ascii_def)
  have e: "MAX_NICKNAME_LENGTH
     - int (length (sr_suffix emojis_example [(ascii ''tank'', 10000000000000000000000000000)])) - 1
     = - 1"
    unfolding suffix_big by (simp add: MAX_NICKNAME_LENGTH_def ascii_def)
  from a b c e show ?thesis by (simp add: truncate_spec_def)
qed

subsection \<open>The unranked result\<close>

text \<open>
  C5, as the code has it. With an empty rating map the result is the first 21 characters
  of the name followed by \<open>" [Unranked]"\<close>: the formula of the specification at
  \<open>maxLength = 32\<close>, the module constant. The result always ends with \<open>"[Unranked]"\<close>.
  The length 21 is a literal of the code, which has no \<open>maxLength\<close> parameter.
\<close>

theorem generate_unranked:
  "generate em name [] = take 21 name @ ascii '' [Unranked]'' \<and>
   generate em name [] = encode_unranked_spec name MAX_NICKNAME_LENGTH \<and>
   suffix (ascii ''[Unranked]'') (generate em name [])"
proof -
  have g: "generate em name [] = take 21 name @ ascii '' [Unranked]''"
    by (simp add: generate_def py_slice_to_def)
  have "ascii '' [Unranked]'' = ascii '' '' @ ascii ''[Unranked]''"
    by (simp add: ascii_def)
  then have "suffix (ascii ''[Unranked]'') (generate em name [])"
    unfolding g suffix_def by (metis append.assoc)
  moreover have "generate em name [] = encode_unranked_spec name MAX_NICKNAME_LENGTH"
    by (simp add: g encode_unranked_spec_def truncate_spec_def MAX_NICKNAME_LENGTH_def
        length_unranked_literal)
  ultimately show ?thesis using g by simp
qed

text \<open>
  C5 as stated fails for a \<open>maxLength\<close> other than 32: for \<open>maxLength = 20\<close> the formula
  keeps 9 characters of a 30-character name, the code keeps 21.
\<close>

theorem generate_unranked_counterexample:
  "generate emojis_example (replicate 30 65) [] \<noteq> encode_unranked_spec (replicate 30 65) 20"
  by (simp add: generate_def py_slice_to_def encode_unranked_spec_def truncate_spec_def
      ascii_def)

subsection \<open>The suffix\<close>

text \<open>
  C6, as the code has it. For every non-empty rating map whose keys are roles, the
  suffix lists the entries of the map, each as the role's glyph followed by the rating,
  separated by \<open>/\<close> and wrapped in \<open>[\<close> and \<open>]\<close>, in the order in which the map iterates:
  the code does not sort them. The order is tank, offense, support when the map has its
  keys in that order, and then the suffix is the one of the specification. When the
  suffix leaves room for the separating space, the result is the first
  \<open>32 - len(suffix) - 1\<close> characters of the name, a space and the suffix.
\<close>

theorem generate_ranked_format:
  "rs \<noteq> [] \<Longrightarrow>
   sr_suffix em (dict_of rs) =
     ascii ''['' @ py_join (ascii ''/'') (map (\<lambda>(r, v). role_glyph em r @ py_str v) rs)
       @ ascii '']'' \<and>
   (map fst rs \<in> set (subseqs canonical_roles) \<longrightarrow>
      sr_suffix em (dict_of rs) = suffix_spec em (map_of rs)) \<and>
   (int (length (sr_suffix em (dict_of rs))) + 1 \<le> MAX_NICKNAME_LENGTH \<longrightarrow>
      generate em name (dict_of rs) =
        truncate_spec name (MAX_NICKNAME_LENGTH - int (length (sr_suffix em (dict_of rs))) - 1)
          @ ascii '' '' @ sr_suffix em (dict_of rs))"
proof -
  assume ne: "rs \<noteq> []"
  then have d: "dict_of rs \<noteq> []" by (simp add: dict_of_def)
  have "generate em name (dict_of rs) =
        truncate_spec name (MAX_NICKNAME_LENGTH - int (length (sr_suffix em (dict_of rs))) - 1)
          @ ascii '' '' @ sr_suffix em (dict_of rs)"
    if "int (length (sr_suffix em (dict_of rs))) + 1 \<le> MAX_NICKNAME_LENGTH"
    using that by (simp add: generate_ranked [OF d] py_slice_to_def truncate_spec_def)
  moreover have "sr_suffix em (dict_of rs) = suffix_spec em (map_of rs)"
    if "map fst rs \<in> set (subseqs canonical_roles)"
    unfolding sr_suffix_roles [OF ne] suffix_spec_def
    using canonical_order_spec [OF ne that] by simp
  ultimately show ?thesis using sr_suffix_roles [OF ne] by blast
qed

text \<open>\<open>Bob\<close> with a tank and a support rating, in this order.\<close>

theorem generate_ranked_format_witness:
  "generate emojis_example (ascii ''Bob'') (dict_of [(Tank, 1000), (Support, 2500)]) =
     ascii ''Bob ['' @ [0x1F6E1] @ ascii ''1000/'' @ [0x271A] @ ascii ''2500]'' \<and>
   sr_suffix emojis_example (dict_of [(Tank, 1000), (Support, 2500)]) =
     suffix_spec emojis_example (map_of [(Tank, 1000), (Support, 2500)])"
proof -
  have ne: "[(Tank, 1000), (Support, 2500)] \<noteq> ([] :: (role \<times> int) list)" by simp
  have c: "map fst [(Tank, 1000 :: int), (Support, 2500)] \<in> set (subseqs canonical_roles)"
    by (simp add: canonical_roles_def Let_def)
  have h: "int (length (sr_suffix emojis_example (dict_of [(Tank, 1000), (Support, 2500)]))) + 1
     \<le> MAX_NICKNAME_LENGTH"
    unfolding suffix_two_roles by (simp add: ascii_def MAX_NICKNAME_LENGTH_def)
  from generate_ranked_format [OF ne, of emojis_example "ascii ''Bob''"] c h
  have g: "generate emojis_example (ascii ''Bob'') (dict_of [(Tank, 1000), (Support, 2500)]) =
        truncate_spec (ascii ''Bob'')
          (MAX_NICKNAME_LENGTH
            - int (length (sr_suffix emojis_example (dict_of [(Tank, 1000), (Support, 2500)]))) - 1)
          @ ascii '' '' @ sr_suffix emojis_example (dict_of [(Tank, 1000), (Support, 2500)])"
    and s: "sr_suffix emojis_example (dict_of [(Tank, 1000), (Support, 2500)]) =
     suffix_spec emojis_example (map_of [(Tank, 1000), (Support, 2500)])"
    by blast+
  have "generate emojis_example (ascii ''Bob'') (dict_of [(Tank, 1000), (Support, 2500)]) =
     ascii ''Bob ['' @ [0x1F6E1] @ ascii ''1000/'' @ [0x271A] @ ascii ''2500]''"
    unfolding g suffix_two_roles
    by (simp add: truncate_spec_def MAX_NICKNAME_LENGTH_def ascii_def)
  with s show ?thesis by simp
qed

text \<open>
  C6 as stated fails: a map that holds the support rating before the tank rating gives
  a suffix with support first, where the canonical order puts tank first.
\<close>

theorem generate_ranked_format_counterexample:
  "sr_suffix emojis_example (dict_of [(Support, 2500), (Tank, 1000)]) =
     ascii ''['' @ [0x271A] @ ascii ''2500/'' @ [0x1F6E1] @ ascii ''1000]'' \<and>
   suffix_spec emojis_example (map_of [(Support, 2500), (Tank, 1000)]) =
     ascii ''['' @ [0x1F6E1] @ ascii ''1000/'' @ [0x271A] @ ascii ''2500]'' \<and>
   sr_suffix emojis_example (dict_of [(Support, 2500), (Tank, 1000)]) \<noteq>
     suffix_spec emojis_example (map_of [(Support, 2500), (Tank, 1000)])"
  by (simp add: encoder_eval suffix_spec_def canonical_roles_def)

section \<open>Properties of the class Nickname\<close>

lemma member_edit_db: "db (snd (member_edit oc n w)) = db w"
  by (cases oc) (simp_all add: member_edit_def)

lemma member_edit_frame:
  "snd (member_edit oc n w) = w\<lparr>member_nick := member_nick (snd (member_edit oc n w))\<rparr>"
  by (cases oc) (simp_all add: member_edit_def)


lemma store_remove:
  "set_or_remove_store self pid True w =
     (Inr (), followup_send (Text (ascii ''Nickname successfully removed.''))
                (w\<lparr>db := nickname_delete (member_id self) (db w)\<rparr>))"
  by (simp add: set_or_remove_store_def)


lemma remove_db:
  "db (snd (set_or_remove em self pid True oc w)) = db w \<or>
   db (snd (set_or_remove em self pid True oc w)) = nickname_delete (member_id self) (db w)"
  by (cases oc) (simp_all add: set_or_remove_def member_edit_def store_remove followup_send_def)

lemma remove_nick:
  "member_nick (snd (set_or_remove em self pid True oc w)) = member_nick w \<or>
   member_nick (snd (set_or_remove em self pid True oc w)) = None"
  by (cases oc) (simp_all add: set_or_remove_def member_edit_def store_remove followup_send_def)

lemmas example_defs =
  nick_example_def world_bound_def world_unbound_def env_example_def profile_example_def

lemma bound_exists: "exists nick_example world_bound"
  by (simp add: exists_def nickname_exists_def example_defs)

lemma unbound_not_exists: "\<not> exists nick_example world_unbound"
  by (simp add: exists_def nickname_exists_def example_defs)

subsection \<open>Unbind\<close>




subsection \<open>Bind\<close>

text \<open>
  C4. Called for a member without a row, in a guild and with a profile,
  \<open>set_or_remove\<close> whose \<open>member.edit\<close> raises \<open>discord.HTTPException\<close> returns
  normally, appends the member's row to the table, and sends two messages: that
  something bad happened while updating the nickname, then that the nickname was set.
\<close>

theorem bind_http_failure:
  "\<not> exists self w \<Longrightarrow> guild self = Some g \<Longrightarrow> profile self = Some p \<Longrightarrow>
   fst (set_or_remove em self pid False EditRaisesHTTP w) = Inr () \<and>
   nickname_tbl (db (snd (set_or_remove em self pid False EditRaisesHTTP w))) =
     nickname_tbl (db w)
       @ [\<lparr>row_id = member_id self, row_server_id = g, row_profile_id = pid\<rparr>] \<and>
   exists self (snd (set_or_remove em self pid False EditRaisesHTTP w)) \<and>
   sent (snd (set_or_remove em self pid False EditRaisesHTTP w)) =
     sent w @ [(Followup, Text (ascii ''Something bad happened while updating your nickname.'')),
               (Followup, Text (ascii ''Nickname successfully set.''))]"
  by (simp add: set_or_remove_def generate_self_def member_edit_def set_or_remove_store_def
      nickname_insert_def exists_def followup_send_def nickname_exists_def)

theorem bind_http_failure_witness:
  "\<not> exists nick_example world_unbound \<and>
   fst (set_or_remove emojis_example nick_example (Some 7) False EditRaisesHTTP world_unbound)
     = Inr () \<and>
   exists nick_example
     (snd (set_or_remove emojis_example nick_example (Some 7) False EditRaisesHTTP world_unbound))"
proof -
  have u: "\<not> exists nick_example world_unbound"
    by (rule unbound_not_exists)
  have g: "guild nick_example = Some 10" and p: "profile nick_example = Some profile_example"
    by (simp_all add: nick_example_def)
  show ?thesis
    using u bind_http_failure [OF u g p, of emojis_example "Some 7"] by simp
qed

subsection \<open>Refresh\<close>

text \<open>
  C9. \<open>update\<close> returns at once, with nothing changed, when the member has no row.
  With a profile on the object it returns normally whatever \<open>member.edit\<close> does, sends
  no message, and leaves the world as it was when the edit raised.
\<close>

theorem update_swallows:
  "(\<not> exists self w \<longrightarrow> update em self oc w = (Inr (), w)) \<and>
   (profile self = Some p \<longrightarrow>
      fst (update em self oc w) = Inr () \<and>
      sent (snd (update em self oc w)) = sent w \<and>
      (oc \<noteq> EditOk \<longrightarrow> snd (update em self oc w) = w))"
  by (cases oc) (auto simp: update_def generate_self_def member_edit_def)

theorem update_swallows_witness:
  "exists nick_example world_bound \<and>
   fst (update emojis_example nick_example EditRaisesOther world_bound) = Inr () \<and>
   snd (update emojis_example nick_example EditRaisesOther world_bound) = world_bound \<and>
   \<not> exists nick_example world_unbound \<and>
   update emojis_example nick_example EditOk world_unbound = (Inr (), world_unbound)"
proof -
  have p: "profile nick_example = Some profile_example" by (simp add: nick_example_def)
  show ?thesis
    using bound_exists unbound_not_exists p
      update_swallows [of nick_example world_bound emojis_example EditRaisesOther profile_example]
      update_swallows [of nick_example world_unbound emojis_example EditOk profile_example]
    by simp
qed

text \<open>
  C10. After \<open>update\<close> the world differs from the one before in the member's display
  name at most: the tables \<open>nickname\<close>, \<open>profile\<close> and \<open>rating\<close> are the same, whether
  the member has a row or not and whatever the edit does. The same holds for the
  refresh at the end of the command \<open>ratings\<close>.
\<close>

theorem update_frame:
  "snd (update em self oc w) = w\<lparr>member_nick := member_nick (snd (update em self oc w))\<rparr> \<and>
   nickname_tbl (db (snd (update em self oc w))) = nickname_tbl (db w) \<and>
   profile_tbl (db (snd (update em self oc w))) = profile_tbl (db w) \<and>
   rating_tbl (db (snd (update em self oc w))) = rating_tbl (db w) \<and>
   db (snd (ratings_refresh em ev i p mid w)) = db w"
proof -
  have a: "snd (update em self oc w) = w\<lparr>member_nick := member_nick (snd (update em self oc w))\<rparr>"
    using member_edit_frame [of oc _ w]
    by (auto simp: update_def split: sum.splits)
  have b: "db (snd (update em self oc w)) = db w"
    by (auto simp: update_def member_edit_db split: sum.splits)
  have "db (snd (ratings_refresh em ev i p mid w)) = db w"
    by (auto simp: ratings_refresh_def Nickname_init_def Let_def)
  with a b show ?thesis by simp
qed

section \<open>Properties of the commands\<close>

lemma report_db: "db (snd (report r)) = db (snd r)"
  by (cases r) (auto simp: report_def followup_send_def split: sum.splits)

lemma report_nick: "member_nick (snd (report r)) = member_nick (snd r)"
  by (cases r) (auto simp: report_def followup_send_def split: sum.splits)

lemma select_timeout:
  "1 < length (get_profiles ev mid w) \<Longrightarrow> view_values ev = [] \<Longrightarrow>
   fst (select_profile ev msg mid w) = Inl NoChoice \<and>
   db (snd (select_profile ev msg mid w)) = db w \<and>
   member_nick (snd (select_profile ev msg mid w)) = member_nick w"
  by (simp add: select_profile_def Let_def followup_send_def response_send_message_def)

lemma select_single:
  "get_profiles ev mid w = [p] \<Longrightarrow> select_profile ev msg mid w = (Inr p, w)"
  by (simp add: select_profile_def Let_def)

lemma example_two_profiles:
  "length (get_profiles env_example 1 world_unbound) = 2"
  by (simp add: get_profiles_def example_defs)

lemma example_one_profile:
  "get_profiles (env_example\<lparr>profiles_limit := 1\<rparr>) 1 world_unbound =
     [profile_example\<lparr>resolve_ratings := []\<rparr>]"
  by (simp add: get_profiles_def Profile_of_record_def example_defs)

subsection \<open>The command nickname for a bound member\<close>

text \<open>
  C7. For a member that has a row, the command never binds. Run with the object built,
  it leaves the tables as they were or, after the confirmed prompt, deletes the member's
  row: every row of \<open>nickname\<close> afterwards was there before, and the display name is
  the old one or cleared, never an encoded one. The command as it stands changes no
  table at all, since the construction of the object raises \<open>TypeError\<close>.
\<close>

theorem nickname_bound_never_binds:
  "exists nick w \<Longrightarrow>
   (db (snd (nickname_body em ev nick w)) = db w \<or>
    db (snd (nickname_body em ev nick w)) = nickname_delete (member_id nick) (db w)) \<and>
   set (nickname_tbl (db (snd (nickname_body em ev nick w)))) \<subseteq> set (nickname_tbl (db w)) \<and>
   (member_nick (snd (nickname_body em ev nick w)) = member_nick w \<or>
    member_nick (snd (nickname_body em ev nick w)) = None) \<and>
   db (snd (nickname_command em ev i w)) = db w"
proof -
  assume b: "exists nick w"
  have c: "db (snd (nickname_command em ev i w)) = db w"
    by (simp add: nickname_command_def Nickname_init_def response_defer_def)
  have d: "db (snd (nickname_body em ev nick w)) = db w \<or>
    db (snd (nickname_body em ev nick w)) = nickname_delete (member_id nick) (db w)"
    using b remove_db [of em nick None "edit_result ev" w]
    by (auto simp: nickname_body_def report_db)
  then have s: "set (nickname_tbl (db (snd (nickname_body em ev nick w))))
      \<subseteq> set (nickname_tbl (db w))"
    by (auto simp: nickname_delete_def)
  have n: "member_nick (snd (nickname_body em ev nick w)) = member_nick w \<or>
    member_nick (snd (nickname_body em ev nick w)) = None"
    using b remove_nick [of em nick None "edit_result ev" w]
    by (auto simp: nickname_body_def report_nick)
  from c d s n show ?thesis by blast
qed

theorem nickname_bound_never_binds_witness:
  "exists nick_example world_bound \<and>
   db (snd (nickname_body emojis_example env_example nick_example world_bound)) =
     nickname_delete (member_id nick_example) (db world_bound) \<and>
   nickname_tbl (db (snd (nickname_body emojis_example env_example nick_example world_bound)))
     = [] \<and>
   member_nick (snd (nickname_body emojis_example env_example nick_example world_bound)) = None"
proof -
  have e: "nickname_tbl
      (db (snd (nickname_body emojis_example env_example nick_example world_bound))) = []"
    using bound_exists
    by (simp add: nickname_body_def set_or_remove_def member_edit_def store_remove report_def
        followup_send_def nickname_delete_def example_defs)
  have n: "nickname_tbl (db world_bound) \<noteq> []"
    by (simp add: example_defs)
  from e n have "db (snd (nickname_body emojis_example env_example nick_example world_bound))
      \<noteq> db world_bound"
    by auto
  moreover have "member_nick world_bound = None" by (simp add: example_defs)
  ultimately show ?thesis
    using e bound_exists
      nickname_bound_never_binds [OF bound_exists, of emojis_example env_example]
    by auto
qed

subsection \<open>The selection of a profile\<close>

text \<open>
  C8. When the account has more than one profile and the menu holds no value after the
  wait, \<open>select_profile\<close> raises \<open>NoChoice\<close>, and neither the tables nor the
  display name have changed; the command \<open>nickname\<close> of an unbound member then ends with
  \<open>NoChoice\<close> and has written nothing. When the account has exactly one profile,
  \<open>select_profile\<close> returns it and the world is the one before: no menu was sent.
\<close>

theorem select_profile_outcomes:
  "(1 < length (get_profiles ev mid w) \<and> view_values ev = [] \<longrightarrow>
      fst (select_profile ev msg mid w) = Inl NoChoice \<and>
      db (snd (select_profile ev msg mid w)) = db w \<and>
      member_nick (snd (select_profile ev msg mid w)) = member_nick w) \<and>
   (get_profiles ev mid w = [p] \<longrightarrow> select_profile ev msg mid w = (Inr p, w)) \<and>
   (\<not> exists nick w \<and> 1 < length (get_profiles ev (member_id nick) w) \<and> view_values ev = [] \<longrightarrow>
      db (snd (nickname_body em ev nick w)) = db w \<and>
      member_nick (snd (nickname_body em ev nick w)) = member_nick w \<and>
      (prompt_answer ev \<and> \<not> top_role_lower ev \<longrightarrow>
         fst (nickname_body em ev nick w) = Inl NoChoice))"
proof -
  have "db (snd (nickname_body em ev nick w)) = db w \<and>
      member_nick (snd (nickname_body em ev nick w)) = member_nick w \<and>
      (prompt_answer ev \<and> \<not> top_role_lower ev \<longrightarrow>
         fst (nickname_body em ev nick w) = Inl NoChoice)"
    if "\<not> exists nick w" "1 < length (get_profiles ev (member_id nick) w)"
      "view_values ev = []"
    using that(1)
      select_timeout [OF that(2,3), of "ascii ''Select a profile to use for the nickname SRs.''"]
    by (auto simp: nickname_body_def followup_send_def split: prod.splits sum.splits)
  then show ?thesis
    using select_timeout [of ev mid w msg] select_single [of ev mid w p msg] by blast
qed

theorem select_profile_outcomes_witness:
  "length (get_profiles env_example 1 world_unbound) = 2 \<and>
   view_values env_example = [] \<and>
   fst (select_profile env_example (ascii ''Select a profile'') 1 world_unbound) = Inl NoChoice \<and>
   db (snd (select_profile env_example (ascii ''Select a profile'') 1 world_unbound))
     = db world_unbound \<and>
   select_profile (env_example\<lparr>profiles_limit := 1\<rparr>) (ascii ''Select a profile'') 1 world_unbound
     = (Inr (profile_example\<lparr>resolve_ratings := []\<rparr>), world_unbound) \<and>
   fst (nickname_body emojis_example env_example nick_example world_unbound) = Inl NoChoice \<and>
   db (snd (nickname_body emojis_example env_example nick_example world_unbound))
     = db world_unbound"
proof -
  have v: "view_values env_example = []" "prompt_answer env_example"
      "\<not> top_role_lower env_example"
    by (simp_all add: env_example_def)
  have m: "member_id nick_example = 1" by (simp add: nick_example_def)
  show ?thesis
    using v m example_two_profiles example_one_profile unbound_not_exists
      select_profile_outcomes [of env_example 1 world_unbound "ascii ''Select a profile''"
        profile_example nick_example emojis_example]
      select_profile_outcomes [of "env_example\<lparr>profiles_limit := 1\<rparr>" 1 world_unbound
        "ascii ''Select a profile''" "profile_example\<lparr>resolve_ratings := []\<rparr>"
        nick_example emojis_example]
    by simp
qed

end
